theory Spec2Isabelle
  imports Main "HOL-Library.Word"
begin

section \<open>Values of the TypeScript source\<close>

text \<open>
  A JavaScript string is a sequence of 16-bit code units and \<open>length\<close> counts code units;
  a \<open>Uint8Array\<close> is a sequence of bytes. String literals of the source are ASCII, so
  \<open>lit\<close> maps each character of a literal to the code unit of the same value.
\<close>

type_synonym code_unit = "16 word"
type_synonym js_string = "code_unit list"
type_synonym byte = "8 word"
type_synonym Uint8Array = "byte list"

definition lit :: "string \<Rightarrow> js_string" where
  "lit s = map of_char s"

text \<open>
  Everything the source throws itself is \<open>new Error(message)\<close>. The two rejections that
  come from the runtime are the transport failure of \<open>fetch\<close> and the failure of
  \<open>response.json()\<close> to decode the body; \<open>Thrown\<close> is an exception raised inside a
  library call.
\<close>

datatype error =
    Error js_string
  | FetchFailed
  | JsonDecodeFailed
  | Thrown js_string

section \<open>Wallet module: address validation\<close>

text \<open>
  The character class of \<open>/^[1-9A-HJ-NP-Za-km-z]+$/\<close>, range by range. Without the
  \<open>m\<close> flag the anchors are the two ends of the input, so \<open>test\<close> holds exactly for
  a non-empty string all of whose code units are in the class.
\<close>

definition in_range :: "char \<Rightarrow> char \<Rightarrow> code_unit \<Rightarrow> bool" where
  "in_range lo hi c = (of_char lo \<le> c \<and> c \<le> of_char hi)"

definition base58_class :: "code_unit \<Rightarrow> bool" where
  "base58_class c =
     (in_range CHR ''1'' CHR ''9'' c \<or> in_range CHR ''A'' CHR ''H'' c \<or>
      in_range CHR ''J'' CHR ''N'' c \<or> in_range CHR ''P'' CHR ''Z'' c \<or>
      in_range CHR ''a'' CHR ''k'' c \<or> in_range CHR ''m'' CHR ''z'' c)"

definition base58Regex_test :: "js_string \<Rightarrow> bool" where
  "base58Regex_test address = (address \<noteq> [] \<and> list_all base58_class address)"

text \<open>
  \<open>validateAddress\<close> calls \<open>bs58.decode\<close>, a function of the \<open>bs58\<close> package; it is the
  parameter \<open>decode\<close> here, free to throw on any input. \<open>validateAddress_try\<close> is the body of the
  \<open>try\<close> block, \<open>validateAddress\<close> adds the \<open>catch\<close> that turns every exception
  into \<open>false\<close>.
\<close>

type_synonym bs58_decoder = "js_string \<Rightarrow> error + Uint8Array"

definition validateAddress_try :: "bs58_decoder \<Rightarrow> js_string \<Rightarrow> error + bool" where
  "validateAddress_try decode address =
     (if length address < 32 \<or> length address > 44 then Inr False
      else if \<not> base58Regex_test address then Inr False
      else (case decode address of
              Inl e \<Rightarrow> Inl e
            | Inr decoded \<Rightarrow> Inr (length decoded = 32)))"

definition validateAddress :: "bs58_decoder \<Rightarrow> js_string \<Rightarrow> bool" where
  "validateAddress decode address =
     (case validateAddress_try decode address of
        Inl e \<Rightarrow> False
      | Inr b \<Rightarrow> b)"

section \<open>Base58\<close>

text \<open>
  Modelled from the spec: the \<open>bs58\<close> package (\<open>encode\<close>, \<open>decode\<close>) is a dependency whose
  code is not part of the sources. The spec calls it the base58 binary-to-text encoding
  over the alphabet \<open>1-9 A-H J-N P-Z a-k m-z\<close>: each leading zero byte is written as the
  first letter of the alphabet, the remaining bytes are read as one big-endian number and
  written in base 58 without leading zero digits; decoding inverts this and fails on a
  character outside the alphabet.
\<close>

definition ALPHABET :: js_string where
  "ALPHABET = lit ''123456789ABCDEFGHJKLMNPQRSTUVWXYZabcdefghijkmnopqrstuvwxyz''"

definition LEADER :: code_unit where
  "LEADER = of_char CHR ''1''"

fun indexOf :: "'a list \<Rightarrow> 'a \<Rightarrow> nat option" where
  "indexOf [] x = None"
| "indexOf (y # ys) x = (if x = y then Some 0 else map_option Suc (indexOf ys x))"

definition BASE_MAP :: "code_unit \<Rightarrow> nat option" where
  "BASE_MAP c = indexOf ALPHABET c"

text \<open>Big-endian digits of a number in base \<open>b\<close>; zero has no digits.\<close>

function to_digits :: "nat \<Rightarrow> nat \<Rightarrow> nat list" where
  "to_digits b n = (if n = 0 \<or> b < 2 then [] else to_digits b (n div b) @ [n mod b])"
  by pat_completeness auto
termination
  by (relation "measure (\<lambda>(b, n). n)") auto

definition digits_value :: "nat \<Rightarrow> nat list \<Rightarrow> nat" where
  "digits_value b ds = foldl (\<lambda>acc d. acc * b + d) 0 ds"

fun char_values :: "js_string \<Rightarrow> nat list option" where
  "char_values [] = Some []"
| "char_values (c # cs) =
     (case BASE_MAP c of
        None \<Rightarrow> None
      | Some d \<Rightarrow> map_option ((#) d) (char_values cs))"

definition bs58_encode :: "Uint8Array \<Rightarrow> js_string" where
  "bs58_encode source =
     (let zeroes = length (takeWhile (\<lambda>b. b = 0) source);
          n = digits_value 256 (map unat (drop zeroes source))
      in replicate zeroes LEADER @ map (\<lambda>d. ALPHABET ! d) (to_digits 58 n))"

definition bs58_decode :: bs58_decoder where
  "bs58_decode source =
     (let zeroes = length (takeWhile (\<lambda>c. c = LEADER) source)
      in case char_values (drop zeroes source) of
           None \<Rightarrow> Inl (Error (lit ''Non-base58 character''))
         | Some ds \<Rightarrow>
             Inr (replicate zeroes 0 @ map of_nat (to_digits 256 (digits_value 58 ds))))"

section \<open>Wallet module: key derivation\<close>

text \<open>
  \<open>Wallet\<close> has the fields of \<open>ImportedWallet\<close> and the mnemonic, as the two interfaces
  of the source do.
\<close>

record ImportedWallet =
  publicKey :: js_string
  secretKey :: Uint8Array

record Wallet = ImportedWallet +
  mnemonic :: js_string

text \<open>
  The cryptography is done by three packages, \<open>bip39\<close>, \<open>ed25519-hd-key\<close> and
  \<open>@solana/web3.js\<close>; their functions are the fields of \<open>libraries\<close>. None of them
  throws where the source calls it: the path is the constant below and the derived key
  handed to \<open>Keypair.fromSeed\<close> is the 32-byte key of \<open>derivePath\<close>.
  \<open>bip39.generateMnemonic\<close> draws its entropy from the system's random source; the
  bytes drawn are its second argument here. The source's variable \<open>mnemonic\<close> is
  \<open>phrase\<close> below, the name being taken by the field of \<open>Wallet\<close>.
\<close>

record Keys =
  key :: Uint8Array
  chainCode :: Uint8Array

record Keypair =
  keypair_publicKey :: Uint8Array
  keypair_secretKey :: Uint8Array

record libraries =
  bip39_generateMnemonic :: "nat \<Rightarrow> Uint8Array \<Rightarrow> js_string"
  bip39_validateMnemonic :: "js_string \<Rightarrow> bool"
  bip39_mnemonicToSeedSync :: "js_string \<Rightarrow> Uint8Array"
  derivePath :: "js_string \<Rightarrow> js_string \<Rightarrow> Keys"
  Keypair_fromSeed :: "Uint8Array \<Rightarrow> Keypair"
  PublicKey_toBase58 :: "Uint8Array \<Rightarrow> js_string"

text \<open>\<open>Buffer.toString('hex')\<close>: two lower-case hexadecimal digits for each byte.\<close>

definition hex_digit :: "nat \<Rightarrow> code_unit" where
  "hex_digit d = lit ''0123456789abcdef'' ! d"

definition toString_hex :: "Uint8Array \<Rightarrow> js_string" where
  "toString_hex buffer =
     concat (map (\<lambda>b. [hex_digit (unat b div 16), hex_digit (unat b mod 16)]) buffer)"

text \<open>The path \<open>m/44'/501'/0'/0'\<close>; its last character is the apostrophe, code unit 39.\<close>

definition derivationPath :: js_string where
  "derivationPath = lit ''m/44'/501'/0'/0'' @ [39]"

definition generateWallet :: "libraries \<Rightarrow> Uint8Array \<Rightarrow> Wallet" where
  "generateWallet lib random =
     (let phrase = bip39_generateMnemonic lib 256 random;
          seed = bip39_mnemonicToSeedSync lib phrase;
          derived = derivePath lib derivationPath (toString_hex seed);
          keypair = Keypair_fromSeed lib (key derived)
      in \<lparr>publicKey = PublicKey_toBase58 lib (keypair_publicKey keypair),
          secretKey = keypair_secretKey keypair,
          mnemonic = phrase\<rparr>)"

definition importFromMnemonic :: "libraries \<Rightarrow> js_string \<Rightarrow> error + ImportedWallet" where
  "importFromMnemonic lib phrase =
     (if \<not> bip39_validateMnemonic lib phrase
      then Inl (Error (lit ''Invalid mnemonic phrase''))
      else
        (let seed = bip39_mnemonicToSeedSync lib phrase;
             derived = derivePath lib derivationPath (toString_hex seed);
             keypair = Keypair_fromSeed lib (key derived)
         in Inr \<lparr>publicKey = PublicKey_toBase58 lib (keypair_publicKey keypair),
                 secretKey = keypair_secretKey keypair\<rparr>))"

text \<open>
  A stand-in for the three packages with no cryptographic content, to run the two
  functions on concrete inputs: it accepts one phrase and always generates that phrase.
\<close>

definition test_phrase :: js_string where
  "test_phrase = lit ''test test test test test test test test test test test junk''"

definition test_libraries :: libraries where
  "test_libraries =
     \<lparr>bip39_generateMnemonic = (\<lambda>strength random. test_phrase),
      bip39_validateMnemonic = (\<lambda>phrase. phrase = test_phrase),
      bip39_mnemonicToSeedSync = (\<lambda>phrase. replicate 64 0),
      derivePath = (\<lambda>path seed. \<lparr>key = replicate 32 0, chainCode = replicate 32 0\<rparr>),
      Keypair_fromSeed = (\<lambda>seed. \<lparr>keypair_publicKey = seed, keypair_secretKey = seed @ seed\<rparr>),
      PublicKey_toBase58 = bs58_encode\<rparr>"

section \<open>Platform client: state and transport\<close>

record AIONClient =
  username :: js_string
  wallet :: "Wallet option"
  claimCode :: "js_string option"

definition new_AIONClient :: "js_string \<Rightarrow> AIONClient" where
  "new_AIONClient name = \<lparr>username = name, wallet = None, claimCode = None\<rparr>"

definition API_BASE :: js_string where
  "API_BASE = lit ''https://www.aionworld.cloud/api''"

text \<open>
  The fields \<open>wallet\<close> and \<open>claimCode\<close> are \<open>Wallet | null\<close> and \<open>string | null\<close>, the
  optional argument of \<open>completeClaim\<close> is \<open>string | undefined\<close>: \<open>None\<close> is the
  \<open>null\<close> or \<open>undefined\<close> of the source. Such a value is falsy when it is \<open>null\<close>,
  \<open>undefined\<close> or the empty string; \<open>a || b\<close> is \<open>a\<close> when \<open>a\<close> is truthy and
  \<open>b\<close> otherwise. In a template literal \<open>null\<close> is written \<open>null\<close>.
\<close>

definition truthy :: "js_string option \<Rightarrow> bool" where
  "truthy v = (case v of None \<Rightarrow> False | Some s \<Rightarrow> s \<noteq> [])"

definition or_else :: "js_string option \<Rightarrow> js_string option \<Rightarrow> js_string option" where
  "or_else a b = (if truthy a then a else b)"

definition ToString :: "js_string option \<Rightarrow> js_string" where
  "ToString v = (case v of None \<Rightarrow> lit ''null'' | Some s \<Rightarrow> s)"

text \<open>The decimal digits of an HTTP status, as \<open>${response.status}\<close> writes them.\<close>

definition Number_toString :: "nat \<Rightarrow> js_string" where
  "Number_toString n =
     (if n = 0 then lit ''0'' else map (\<lambda>d. lit ''0123456789'' ! d) (to_digits 10 n))"

text \<open>
  The object literals given to \<open>JSON.stringify\<close> hold strings, \<open>undefined\<close> (an optional
  parameter that was not given) and \<open>null\<close> (no wallet held). The JSON text is kept as the
  list of its members in order; \<open>JSON.stringify\<close> leaves out the members whose value is
  \<open>undefined\<close>. A request is the two arguments of \<open>fetch\<close>: the URL and the init
  object when one is given, whose member \<open>method\<close> is the field \<open>request_method\<close>.
\<close>

datatype js_value = Undefined | Null | String js_string

type_synonym js_object = "(js_string \<times> js_value) list"

definition JSON_stringify :: "js_object \<Rightarrow> js_object" where
  "JSON_stringify obj = filter (\<lambda>(k, v). v \<noteq> Undefined) obj"

definition optional :: "js_string option \<Rightarrow> js_value" where
  "optional v = (case v of None \<Rightarrow> Undefined | Some s \<Rightarrow> String s)"

definition nullable :: "js_string option \<Rightarrow> js_value" where
  "nullable v = (case v of None \<Rightarrow> Null | Some s \<Rightarrow> String s)"

record RequestInit =
  request_method :: js_string
  headers :: "(js_string \<times> js_string) list"
  body :: js_object

record Request =
  url :: js_string
  init :: "RequestInit option"

text \<open>
  A response carries its status and what \<open>response.json()\<close> resolves to: \<open>None\<close> when the
  body does not decode. The decoded value has the type the source declares for it, \<open>'d\<close>.
  The platform is the list of its answers to the coming requests, \<open>None\<close> for a request
  that fails in transport (as does a request that no answer is left for), and the
  requests made so far.
\<close>

record 'd Response =
  status :: nat
  json :: "'d option"

definition ok :: "'d Response \<Rightarrow> bool" where
  "ok response = (200 \<le> status response \<and> status response \<le> 299)"

record 'd platform =
  replies :: "'d Response option list"
  requests :: "Request list"

definition next_reply :: "'d platform \<Rightarrow> 'd Response option" where
  "next_reply p = (case replies p of [] \<Rightarrow> None | reply # rest \<Rightarrow> reply)"

definition sent :: "Request \<Rightarrow> 'd platform \<Rightarrow> 'd platform" where
  "sent request p = \<lparr>replies = tl (replies p), requests = requests p @ [request]\<rparr>"

definition fetch :: "Request \<Rightarrow> 'd platform \<Rightarrow> (error + 'd Response) \<times> 'd platform" where
  "fetch request p =
     (case next_reply p of
        None \<Rightarrow> (Inl FetchFailed, sent request p)
      | Some response \<Rightarrow> (Inr response, sent request p))"

definition json_headers :: "(js_string \<times> js_string) list" where
  "json_headers = [(lit ''Content-Type'', lit ''application/json'')]"

definition api_error :: "'d Response \<Rightarrow> error" where
  "api_error response = Error (lit ''API error: '' @ Number_toString (status response))"

definition Response_json :: "'d Response \<Rightarrow> error + 'd" where
  "Response_json response =
     (case json response of None \<Rightarrow> Inl JsonDecodeFailed | Some data \<Rightarrow> Inr data)"

section \<open>Platform client: wallet\<close>

definition setWalletAddress ::
    "bs58_decoder \<Rightarrow> AIONClient \<Rightarrow> js_string \<Rightarrow> (error + bool) \<times> AIONClient" where
  "setWalletAddress decode this address =
     (if \<not> validateAddress decode address
      then (Inl (Error (lit ''Invalid Solana address: '' @ address)), this)
      else (Inr True,
            this\<lparr>wallet := Some \<lparr>publicKey = address, secretKey = [], mnemonic = []\<rparr>\<rparr>))"

text \<open>The getter \<open>walletAddress\<close>: \<open>this.wallet?.publicKey ?? null\<close>.\<close>

definition walletAddress :: "AIONClient \<Rightarrow> js_string option" where
  "walletAddress this = (case wallet this of None \<Rightarrow> None | Some w \<Rightarrow> Some (publicKey w))"

section \<open>Platform client: claim\<close>

record start_claim_data =
  claim_code :: js_string
  message :: js_string

definition startClaim_request :: "AIONClient \<Rightarrow> Request" where
  "startClaim_request this =
     \<lparr>url = API_BASE @ lit ''/agent'',
      init = Some \<lparr>request_method = lit ''POST'', headers = json_headers,
                   body = JSON_stringify
                     [(lit ''action'', String (lit ''start_claim'')),
                      (lit ''username'', String (username this))]\<rparr>\<rparr>"

definition startClaim ::
    "AIONClient \<Rightarrow> start_claim_data platform \<Rightarrow>
     (error + start_claim_data) \<times> AIONClient \<times> start_claim_data platform" where
  "startClaim this p =
     (case fetch (startClaim_request this) p of
        (Inl e, p') \<Rightarrow> (Inl e, this, p')
      | (Inr response, p') \<Rightarrow>
          if \<not> ok response then (Inl (api_error response), this, p')
          else (case Response_json response of
                  Inl e \<Rightarrow> (Inl e, this, p')
                | Inr data \<Rightarrow> (Inr data, this\<lparr>claimCode := Some (claim_code data)\<rparr>, p')))"

text \<open>
  \<open>completeClaim\<close> builds its payload first: \<open>wallet_address\<close> is added after the three
  fixed members when \<open>walletAddress || this.walletAddress\<close> is truthy.
\<close>

definition completeClaim_payload ::
    "AIONClient \<Rightarrow> js_string \<Rightarrow> js_string option \<Rightarrow> (js_string \<times> js_string) list" where
  "completeClaim_payload this postUrl explicit =
     (let address = or_else explicit (walletAddress this);
          payload = [(lit ''action'', lit ''complete_claim''),
                     (lit ''username'', username this),
                     (lit ''post_url'', postUrl)]
      in case address of
           None \<Rightarrow> payload
         | Some a \<Rightarrow> if truthy address then payload @ [(lit ''wallet_address'', a)] else payload)"

definition completeClaim_request :: "AIONClient \<Rightarrow> js_string \<Rightarrow> js_string option \<Rightarrow> Request" where
  "completeClaim_request this postUrl explicit =
     \<lparr>url = API_BASE @ lit ''/agent'',
      init = Some \<lparr>request_method = lit ''POST'', headers = json_headers,
                   body = JSON_stringify
                     (map (\<lambda>(k, v). (k, String v)) (completeClaim_payload this postUrl explicit))\<rparr>\<rparr>"

definition completeClaim ::
    "AIONClient \<Rightarrow> js_string \<Rightarrow> js_string option \<Rightarrow> 'r platform \<Rightarrow> (error + 'r) \<times> 'r platform" where
  "completeClaim this postUrl explicit p =
     (case fetch (completeClaim_request this postUrl explicit) p of
        (Inl e, p') \<Rightarrow> (Inl e, p')
      | (Inr response, p') \<Rightarrow>
          if \<not> ok response then (Inl (api_error response), p')
          else (Response_json response, p'))"

definition claim :: "AIONClient \<Rightarrow> js_string \<Rightarrow> 'r platform \<Rightarrow> (error + 'r) \<times> 'r platform" where
  "claim this postUrl p = completeClaim this postUrl None p"

text \<open>The template literal of \<open>getVerificationMessage\<close>; its line breaks are line feeds.\<close>

definition verification_message :: "js_string option \<Rightarrow> js_string" where
  "verification_message code =
     lit ''Claiming my $AION tokens!'' @ [10, 10] @
     lit ''Verification: '' @ ToString code @ [10, 10] @
     lit ''www.aionworld.cloud''"

definition getVerificationMessage ::
    "AIONClient \<Rightarrow> start_claim_data platform \<Rightarrow>
     (error + js_string) \<times> AIONClient \<times> start_claim_data platform" where
  "getVerificationMessage this p =
     (if \<not> truthy (claimCode this)
      then (case startClaim this p of
              (Inl e, this', p') \<Rightarrow> (Inl e, this', p')
            | (Inr data, this', p') \<Rightarrow>
                (Inr (verification_message (claimCode this')), this', p'))
      else (Inr (verification_message (claimCode this)), this, p))"

section \<open>Platform client: bounties, challenges, statistics\<close>

text \<open>
  The listings are read as \<open>data.categories || []\<close> and \<open>data.challenges || []\<close>: the
  member is optional in the decoded payload, and an array is truthy even when empty.
  The items are returned as they are decoded, so their type is a parameter.
\<close>

record 'c bug_bounty_data =
  categories :: "'c list option"

record 'c challenges_data =
  challenges :: "'c list option"

definition getBugBounties_request :: Request where
  "getBugBounties_request = \<lparr>url = API_BASE @ lit ''/bug-bounty'', init = None\<rparr>"

definition getBugBounties ::
    "AIONClient \<Rightarrow> 'c bug_bounty_data platform \<Rightarrow>
     (error + 'c list) \<times> 'c bug_bounty_data platform" where
  "getBugBounties this p =
     (case fetch getBugBounties_request p of
        (Inl e, p') \<Rightarrow> (Inl e, p')
      | (Inr response, p') \<Rightarrow>
          if \<not> ok response then (Inl (api_error response), p')
          else (case Response_json response of
                  Inl e \<Rightarrow> (Inl e, p')
                | Inr data \<Rightarrow>
                    (Inr (case categories data of None \<Rightarrow> [] | Some cs \<Rightarrow> cs), p')))"

record submitBugReport_params =
  category :: js_string
  title :: js_string
  description :: js_string
  stepsToReproduce :: "js_string option"
  expectedBehavior :: "js_string option"
  actualBehavior :: "js_string option"

definition submitBugReport_request :: "AIONClient \<Rightarrow> submitBugReport_params \<Rightarrow> Request" where
  "submitBugReport_request this params =
     \<lparr>url = API_BASE @ lit ''/bug-bounty'',
      init = Some \<lparr>request_method = lit ''POST'', headers = json_headers,
                   body = JSON_stringify
                     [(lit ''username'', String (username this)),
                      (lit ''category'', String (category params)),
                      (lit ''title'', String (title params)),
                      (lit ''description'', String (submitBugReport_params.description params)),
                      (lit ''steps_to_reproduce'', optional (stepsToReproduce params)),
                      (lit ''expected_behavior'', optional (expectedBehavior params)),
                      (lit ''actual_behavior'', optional (actualBehavior params)),
                      (lit ''wallet_address'', nullable (walletAddress this))]\<rparr>\<rparr>"

definition submitBugReport ::
    "AIONClient \<Rightarrow> submitBugReport_params \<Rightarrow> 'r platform \<Rightarrow> (error + 'r) \<times> 'r platform" where
  "submitBugReport this params p =
     (case fetch (submitBugReport_request this params) p of
        (Inl e, p') \<Rightarrow> (Inl e, p')
      | (Inr response, p') \<Rightarrow>
          if \<not> ok response then (Inl (api_error response), p')
          else (Response_json response, p'))"

text \<open>\<open>status: string = 'open'\<close>: the default stands in when the argument is not given.\<close>

definition getChallenges_request :: "js_string option \<Rightarrow> Request" where
  "getChallenges_request status_arg =
     (let status_text = (case status_arg of None \<Rightarrow> lit ''open'' | Some s \<Rightarrow> s)
      in \<lparr>url = API_BASE @ lit ''/challenges?status='' @ status_text, init = None\<rparr>)"

definition getChallenges ::
    "AIONClient \<Rightarrow> js_string option \<Rightarrow> 'c challenges_data platform \<Rightarrow>
     (error + 'c list) \<times> 'c challenges_data platform" where
  "getChallenges this status_arg p =
     (case fetch (getChallenges_request status_arg) p of
        (Inl e, p') \<Rightarrow> (Inl e, p')
      | (Inr response, p') \<Rightarrow>
          if \<not> ok response then (Inl (api_error response), p')
          else (case Response_json response of
                  Inl e \<Rightarrow> (Inl e, p')
                | Inr data \<Rightarrow>
                    (Inr (case challenges data of None \<Rightarrow> [] | Some cs \<Rightarrow> cs), p')))"

record submitChallengeSolution_params =
  challengeSlug :: js_string
  solutionUrl :: js_string
  description :: js_string

definition submitChallengeSolution_request ::
    "AIONClient \<Rightarrow> submitChallengeSolution_params \<Rightarrow> Request" where
  "submitChallengeSolution_request this params =
     \<lparr>url = API_BASE @ lit ''/challenges/submit'',
      init = Some \<lparr>request_method = lit ''POST'', headers = json_headers,
                   body = JSON_stringify
                     [(lit ''username'', String (username this)),
                      (lit ''challenge_slug'', String (challengeSlug params)),
                      (lit ''solution_url'', String (solutionUrl params)),
                      (lit ''description'',
                         String (submitChallengeSolution_params.description params))]\<rparr>\<rparr>"

definition submitChallengeSolution ::
    "AIONClient \<Rightarrow> submitChallengeSolution_params \<Rightarrow> 'r platform \<Rightarrow>
     (error + 'r) \<times> 'r platform" where
  "submitChallengeSolution this params p =
     (case fetch (submitChallengeSolution_request this params) p of
        (Inl e, p') \<Rightarrow> (Inl e, p')
      | (Inr response, p') \<Rightarrow>
          if \<not> ok response then (Inl (api_error response), p')
          else (Response_json response, p'))"

text \<open>
  \<open>getMyStats\<close> passes the username through the built-in \<open>encodeURIComponent\<close>, which
  throws on a string that is not well-formed UTF-16; it is a parameter here. When it
  throws, no request is made.
\<close>

type_synonym uri_encoder = "js_string \<Rightarrow> error + js_string"

definition getMyStats_request :: "js_string \<Rightarrow> Request" where
  "getMyStats_request encoded =
     \<lparr>url = API_BASE @ lit ''/agent?username='' @ encoded, init = None\<rparr>"

definition getMyStats ::
    "uri_encoder \<Rightarrow> AIONClient \<Rightarrow> 'r platform \<Rightarrow> (error + 'r) \<times> 'r platform" where
  "getMyStats encodeURIComponent this p =
     (case encodeURIComponent (username this) of
        Inl e \<Rightarrow> (Inl e, p)
      | Inr encoded \<Rightarrow>
          (case fetch (getMyStats_request encoded) p of
             (Inl e, p') \<Rightarrow> (Inl e, p')
           | (Inr response, p') \<Rightarrow>
               if \<not> ok response then (Inl (api_error response), p')
               else (Response_json response, p')))"

section \<open>Concrete clients and platforms\<close>

text \<open>
  A client named \<open>agent\<close>, the same client holding the address of the system program
  as \<open>setWalletAddress\<close> stores it, a platform that answers the coming \<open>startClaim\<close>
  requests with status 200 and the given claim codes, in order, and a platform whose one
  answer has the given status and decoded body.
\<close>

definition agent :: AIONClient where
  "agent = new_AIONClient (lit ''agent'')"

definition answers :: "js_string list \<Rightarrow> start_claim_data platform" where
  "answers codes =
     \<lparr>replies = map (\<lambda>c. Some \<lparr>status = 200, json = Some \<lparr>claim_code = c, message = []\<rparr>\<rparr>) codes,
      requests = []\<rparr>"

definition holder :: AIONClient where
  "holder = agent\<lparr>wallet := Some \<lparr>publicKey = lit ''11111111111111111111111111111111'',
                                    secretKey = [], mnemonic = []\<rparr>\<rparr>"

definition answering :: "nat \<Rightarrow> 'd option \<Rightarrow> 'd platform" where
  "answering code decoded = \<lparr>replies = [Some \<lparr>status = code, json = decoded\<rparr>], requests = []\<rparr>"

section \<open>Digits of a number\<close>

lemma digits_value_snoc: "digits_value b (ds @ [d]) = digits_value b ds * b + d"
  by (simp add: digits_value_def)

lemma digits_value_Nil: "digits_value b [] = 0"
  by (simp add: digits_value_def)

lemma to_digits_zero: "to_digits b 0 = []"
  by simp

lemma to_digits_step:
  "2 \<le> b \<Longrightarrow> 0 < n \<Longrightarrow> to_digits b n = to_digits b (n div b) @ [n mod b]"
  by (subst to_digits.simps) simp

declare to_digits.simps [simp del]

lemma digits_value_to_digits: "2 \<le> b \<Longrightarrow> digits_value b (to_digits b n) = n"
proof (induction b n rule: to_digits.induct)
  case (1 b n)
  show ?case
  proof (cases "n = 0")
    case True
    then show ?thesis by (simp add: to_digits_zero digits_value_Nil)
  next
    case False
    with 1 show ?thesis
      by (simp add: to_digits_step digits_value_snoc)
  qed
qed

lemma to_digits_less: "2 \<le> b \<Longrightarrow> d \<in> set (to_digits b n) \<Longrightarrow> d < b"
proof (induction b n rule: to_digits.induct)
  case (1 b n)
  show ?case
  proof (cases "n = 0")
    case True
    with 1 show ?thesis by (simp add: to_digits_zero)
  next
    case False
    with 1 show ?thesis
      by (auto simp add: to_digits_step)
  qed
qed

lemma to_digits_eq_Nil: "2 \<le> b \<Longrightarrow> to_digits b n = [] \<longleftrightarrow> n = 0"
  by (cases "n = 0") (simp_all add: to_digits_zero to_digits_step)

lemma hd_to_digits: "2 \<le> b \<Longrightarrow> 0 < n \<Longrightarrow> hd (to_digits b n) \<noteq> 0"
proof (induction b n rule: to_digits.induct)
  case (1 b n)
  from "1.prems" have step: "to_digits b n = to_digits b (n div b) @ [n mod b]"
    by (rule to_digits_step)
  show ?case
  proof (cases "n div b = 0")
    case True
    with "1.prems" have "n < b" by (simp add: div_eq_0_iff)
    with "1.prems" True step show ?thesis by (simp add: to_digits_zero)
  next
    case False
    with "1.prems" have ne: "to_digits b (n div b) \<noteq> []" by (simp add: to_digits_eq_Nil)
    from False "1.prems" "1.IH" have "hd (to_digits b (n div b)) \<noteq> 0" by simp
    with ne step show ?thesis by simp
  qed
qed

lemma length_to_digits_le: "2 \<le> b \<Longrightarrow> n < b ^ k \<Longrightarrow> length (to_digits b n) \<le> k"
proof (induction k arbitrary: n)
  case 0
  then show ?case by (simp add: to_digits_zero)
next
  case (Suc k)
  show ?case
  proof (cases "n = 0")
    case True
    then show ?thesis by (simp add: to_digits_zero)
  next
    case False
    from Suc.prems have "n div b < b ^ k"
      by (simp add: less_mult_imp_div_less mult.commute)
    with Suc have "length (to_digits b (n div b)) \<le> k" by simp
    with False Suc.prems show ?thesis by (simp add: to_digits_step)
  qed
qed

lemma length_to_digits_gt: "2 \<le> b \<Longrightarrow> b ^ k \<le> n \<Longrightarrow> k < length (to_digits b n)"
proof (induction k arbitrary: n)
  case 0
  then show ?case by (simp add: to_digits_eq_Nil)
next
  case (Suc k)
  from Suc.prems have pos: "0 < n" by (cases "n = 0") simp_all
  from Suc.prems have "b ^ k \<le> n div b"
    by (simp add: less_eq_div_iff_mult_less_eq mult.commute)
  with Suc have "k < length (to_digits b (n div b))" by simp
  with pos Suc.prems show ?case by (simp add: to_digits_step)
qed

lemma to_digits_digits_value:
  "2 \<le> b \<Longrightarrow> \<forall>d \<in> set ds. d < b \<Longrightarrow> ds = [] \<or> hd ds \<noteq> 0 \<Longrightarrow>
   to_digits b (digits_value b ds) = ds"
proof (induction ds rule: rev_induct)
  case Nil
  then show ?case by (simp add: digits_value_Nil to_digits_zero)
next
  case (snoc x xs)
  show ?case
  proof (cases "xs = []")
    case True
    with snoc.prems have x: "0 < x" "x < b" by simp_all
    with snoc.prems have "to_digits b x = to_digits b (x div b) @ [x mod b]"
      by (simp add: to_digits_step)
    with x True show ?thesis
      by (simp add: digits_value_def to_digits_zero)
  next
    case False
    with snoc have ih: "to_digits b (digits_value b xs) = xs" by simp
    with False snoc.prems have pos: "0 < digits_value b xs"
      by (cases "digits_value b xs = 0") (simp_all add: to_digits_zero)
    from snoc.prems have "x < b" by simp
    with pos snoc.prems ih show ?thesis
      by (simp add: digits_value_snoc to_digits_step)
  qed
qed


lemma digits_value_less:
  "\<forall>d \<in> set ds. d < b \<Longrightarrow> digits_value b ds < b ^ length ds"
proof (induction ds rule: rev_induct)
  case Nil
  then show ?case by (simp add: digits_value_Nil)
next
  case (snoc x xs)
  then have ih: "digits_value b xs < b ^ length xs" and x: "x < b" by simp_all
  from x have "digits_value b xs * b + x < (digits_value b xs + 1) * b" by simp
  also from ih have "\<dots> \<le> b ^ length xs * b"
    by (intro mult_le_mono1) simp
  finally show ?case by (simp add: digits_value_snoc mult.commute)
qed

lemma digits_value_ge:
  "ds \<noteq> [] \<Longrightarrow> hd ds \<noteq> 0 \<Longrightarrow> b ^ (length ds - 1) \<le> digits_value b ds"
proof (induction ds rule: rev_induct)
  case Nil
  then show ?case by simp
next
  case (snoc x xs)
  show ?case
  proof (cases "xs = []")
    case True
    with snoc.prems show ?thesis by (simp add: digits_value_def)
  next
    case False
    with snoc.prems have "hd xs \<noteq> 0" by simp
    with False have ih: "b ^ (length xs - 1) \<le> digits_value b xs" by (rule snoc.IH)
    from False have "b ^ (length (xs @ [x]) - 1) = b ^ (length xs - 1) * b"
      by (cases xs) simp_all
    also from ih have "\<dots> \<le> digits_value b xs * b" by (rule mult_le_mono1)
    also have "\<dots> \<le> digits_value b (xs @ [x])" by (simp add: digits_value_snoc)
    finally show ?thesis .
  qed
qed

section \<open>The base58 model: alphabet, round trip, length\<close>

lemma indexOf_nth: "distinct xs \<Longrightarrow> i < length xs \<Longrightarrow> indexOf xs (xs ! i) = Some i"
proof (induction xs arbitrary: i)
  case Nil
  then show ?case by simp
next
  case (Cons y ys)
  then show ?case by (cases i) auto
qed

lemma ALPHABET_length: "length ALPHABET = 58"
  by (simp add: ALPHABET_def lit_def)

lemma ALPHABET_distinct: "distinct ALPHABET"
  by (simp add: ALPHABET_def lit_def)

lemma ALPHABET_class: "list_all base58_class ALPHABET"
  by (simp add: ALPHABET_def lit_def base58_class_def in_range_def)

lemma ALPHABET_leader: "ALPHABET ! 0 = LEADER"
  by (simp add: ALPHABET_def lit_def LEADER_def)


lemma char_values_letters:
  "\<forall>d \<in> set ds. d < 58 \<Longrightarrow> char_values (map (\<lambda>d. ALPHABET ! d) ds) = Some ds"
  by (induction ds) (simp_all add: BASE_MAP_def indexOf_nth ALPHABET_distinct ALPHABET_length)

lemma letter_not_leader: "0 < d \<Longrightarrow> d < 58 \<Longrightarrow> ALPHABET ! d \<noteq> LEADER"
proof
  assume d: "0 < d" "d < 58" and eq: "ALPHABET ! d = LEADER"
  from d have "indexOf ALPHABET (ALPHABET ! d) = Some d"
    by (simp add: indexOf_nth ALPHABET_distinct ALPHABET_length)
  moreover have "indexOf ALPHABET (ALPHABET ! 0) = Some 0"
    by (simp add: indexOf_nth ALPHABET_distinct ALPHABET_length)
  ultimately show False using d eq by (simp add: ALPHABET_leader)
qed

lemma takeWhile_replicate_append:
  "takeWhile (\<lambda>c. c = x) (replicate z x @ ys) = replicate z x @ takeWhile (\<lambda>c. c = x) ys"
  by (induction z) simp_all

lemma takeWhile_leader:
  assumes "ds = [] \<or> hd ds \<noteq> 0" and "\<forall>d \<in> set ds. d < 58"
  shows "takeWhile (\<lambda>c. c = LEADER) (replicate z LEADER @ map (\<lambda>d. ALPHABET ! d) ds)
         = replicate z LEADER"
proof (cases ds)
  case Nil
  then show ?thesis by (simp add: takeWhile_replicate_append)
next
  case (Cons d ds')
  with assms have "0 < d" "d < 58" by simp_all
  then have "ALPHABET ! d \<noteq> LEADER" by (rule letter_not_leader)
  with Cons show ?thesis by (simp add: takeWhile_replicate_append)
qed

lemma leading_zeroes_split:
  "replicate (length (takeWhile (\<lambda>b. b = 0) bs)) 0 @ drop (length (takeWhile (\<lambda>b. b = 0) bs)) bs = bs"
  by (induction bs) simp_all

lemma after_leading_zeroes:
  "drop (length (takeWhile (\<lambda>b. b = (0::byte)) bs)) bs = [] \<or>
   hd (drop (length (takeWhile (\<lambda>b. b = 0) bs)) bs) \<noteq> 0"
  by (induction bs) simp_all

lemma bytes_of_unat: "map of_nat (map unat (bs :: byte list)) = bs"
  by (induction bs) simp_all

lemma unat_byte_less: "\<forall>d \<in> set (map unat (bs :: byte list)). d < 256"
proof
  fix d assume "d \<in> set (map unat bs)"
  then obtain x :: byte where "d = unat x" by auto
  moreover have "unat x < 2 ^ LENGTH(8)" by (rule unsigned_less)
  ultimately show "d < 256" by simp
qed

lemma bs58_roundtrip: "bs58_decode (bs58_encode bs) = Inr bs"
proof -
  define z where "z = length (takeWhile (\<lambda>b. b = 0) bs)"
  define rest where "rest = map unat (drop z bs)"
  define ds where "ds = to_digits 58 (digits_value 256 rest)"
  have enc: "bs58_encode bs = replicate z LEADER @ map (\<lambda>d. ALPHABET ! d) ds"
    by (simp add: bs58_encode_def z_def rest_def ds_def Let_def)
  have ds_less: "\<forall>d \<in> set ds. d < 58"
    unfolding ds_def by (auto dest: to_digits_less [rotated])
  have ds_hd: "ds = [] \<or> hd ds \<noteq> 0"
  proof (cases "digits_value 256 rest = 0")
    case True
    then show ?thesis by (simp add: ds_def to_digits_zero)
  next
    case False
    then show ?thesis by (simp add: ds_def hd_to_digits)
  qed
  have lead: "takeWhile (\<lambda>c. c = LEADER) (bs58_encode bs) = replicate z LEADER"
    unfolding enc using ds_hd ds_less by (rule takeWhile_leader)
  have rest_hd: "rest = [] \<or> hd rest \<noteq> 0"
  proof (cases "drop z bs = []")
    case True
    then show ?thesis by (simp add: rest_def)
  next
    case False
    with after_leading_zeroes [of bs] have "hd (drop z bs) \<noteq> 0" by (simp add: z_def)
    with False show ?thesis by (simp add: rest_def hd_map unat_eq_0)
  qed
  have "to_digits 256 (digits_value 58 ds) = rest"
  proof -
    have "digits_value 58 ds = digits_value 256 rest"
      by (simp add: ds_def digits_value_to_digits)
    moreover have "to_digits 256 (digits_value 256 rest) = rest"
      using unat_byte_less rest_hd by (simp add: to_digits_digits_value rest_def)
    ultimately show ?thesis by simp
  qed
  with bytes_of_unat [of "drop z bs"]
  have "(map of_nat (to_digits 256 (digits_value 58 ds)) :: byte list) = drop z bs"
    by (simp only: rest_def)
  moreover have "drop z (bs58_encode bs) = map (\<lambda>d. ALPHABET ! d) ds"
    by (simp add: enc)
  moreover have "replicate z 0 @ drop z bs = bs"
    unfolding z_def by (rule leading_zeroes_split)
  ultimately show ?thesis
    using lead ds_less by (simp add: bs58_decode_def Let_def char_values_letters)
qed

lemma bs58_encode_class: "list_all base58_class (bs58_encode bs)"
proof -
  have leader: "base58_class LEADER"
    by (simp add: LEADER_def base58_class_def in_range_def)
  have "\<forall>d \<in> set (to_digits 58 n). base58_class (ALPHABET ! d)" for n
  proof
    fix d assume "d \<in> set (to_digits 58 n)"
    then have "d < length ALPHABET" by (simp add: to_digits_less ALPHABET_length)
    with ALPHABET_class show "base58_class (ALPHABET ! d)"
      by (simp add: list_all_length)
  qed
  with leader show ?thesis
    by (auto simp add: bs58_encode_def Let_def list_all_iff)
qed

lemma pow256_le_pow58: "m \<le> 32 \<Longrightarrow> (256::nat) ^ m \<le> 58 ^ (12 + m)"
proof -
  assume m: "m \<le> 32"
  have top: "(256::nat) ^ 32 \<le> 58 ^ 44" by simp
  have "(256::nat) ^ m * 58 ^ (32 - m) \<le> 256 ^ m * 256 ^ (32 - m)"
    by (intro mult_le_mono2 power_mono) simp_all
  also from m have "\<dots> = 256 ^ 32" by (simp flip: power_add)
  also note top
  also from m have "(58::nat) ^ 44 = 58 ^ (12 + m) * 58 ^ (32 - m)" by (simp flip: power_add)
  finally show ?thesis by simp
qed

lemma bs58_encode_length:
  assumes "length bs = 32"
  shows "32 \<le> length (bs58_encode bs) \<and> length (bs58_encode bs) \<le> 44"
proof -
  define z where "z = length (takeWhile (\<lambda>b. b = 0) bs)"
  define rest where "rest = map unat (drop z bs)"
  define n where "n = digits_value 256 rest"
  have len: "length (bs58_encode bs) = z + length (to_digits 58 n)"
    by (simp add: bs58_encode_def z_def rest_def n_def Let_def)
  have z: "z \<le> 32"
    using assms length_takeWhile_le [of "\<lambda>b. b = 0" bs] by (simp add: z_def)
  with assms have m: "length rest = 32 - z" by (simp add: rest_def)
  have "n < 256 ^ (32 - z)"
    using digits_value_less [of rest 256] unat_byte_less [of "drop z bs"]
    by (simp add: n_def m flip: rest_def)
  also have "(256::nat) ^ (32 - z) \<le> 58 ^ (12 + (32 - z))"
    by (rule pow256_le_pow58) simp
  finally have "length (to_digits 58 n) \<le> 12 + (32 - z)"
    by (intro length_to_digits_le) simp_all
  with z have upper: "length (bs58_encode bs) \<le> 44" by (simp add: len)
  have lower: "32 \<le> length (bs58_encode bs)"
  proof (cases "z = 32")
    case True
    then show ?thesis by (simp add: len)
  next
    case False
    with z m have ne: "rest \<noteq> []" by auto
    with assms have "drop z bs \<noteq> []" by (simp add: rest_def)
    with after_leading_zeroes [of bs] have "hd (drop z bs) \<noteq> 0" by (simp add: z_def)
    with ne have "hd rest \<noteq> 0" by (simp add: rest_def hd_map unat_eq_0)
    with ne have "256 ^ (length rest - 1) \<le> n"
      unfolding n_def by (rule digits_value_ge)
    moreover have "(58::nat) ^ (length rest - 1) \<le> 256 ^ (length rest - 1)"
      by (rule power_mono) simp_all
    ultimately have "58 ^ (length rest - 1) \<le> n" by simp
    then have "length rest - 1 < length (to_digits 58 n)"
      by (intro length_to_digits_gt) simp_all
    with m z False show ?thesis by (simp add: len)
  qed
  from lower upper show ?thesis ..
qed

section \<open>Evaluations on concrete inputs\<close>

lemma system_program_decodes:
  "bs58_decode (lit ''11111111111111111111111111111111'') = Inr (replicate 32 0)"
  by code_simp

lemma test_import:
  "importFromMnemonic test_libraries test_phrase =
     Inr \<lparr>publicKey = bs58_encode (replicate 32 0), secretKey = replicate 64 0\<rparr>"
  by (simp add: importFromMnemonic_def test_libraries_def Let_def replicate_add [symmetric])

lemma test_generate: "mnemonic (generateWallet test_libraries random) = test_phrase"
  by (simp add: generateWallet_def test_libraries_def Let_def)

lemma test_valid: "bip39_validateMnemonic test_libraries test_phrase"
  by (simp add: test_libraries_def)

lemma test_invalid: "\<not> bip39_validateMnemonic test_libraries (lit ''not a mnemonic'')"
  by (simp add: test_libraries_def test_phrase_def lit_def)

section \<open>Claims on address validation\<close>

text \<open>
  C2: for every input string and every behaviour of the decoder, \<open>validateAddress\<close>
  returns a boolean, and it returns true exactly when the length is between 32 and 44,
  every code unit is in the base58 class and the string decodes to exactly 32 bytes. The
  checks run in this order: a string that fails the length check or the class check makes
  the \<open>try\<close> block return false whatever the decoder would do, and an exception of the
  decoder gives false.
\<close>

theorem validateAddress_policy:
  "(validateAddress decode address \<longleftrightarrow>
      32 \<le> length address \<and> length address \<le> 44 \<and> list_all base58_class address \<and>
      (\<exists>decoded. decode address = Inr decoded \<and> length decoded = 32)) \<and>
   (length address < 32 \<or> 44 < length address \<longrightarrow> validateAddress_try decode address = Inr False) \<and>
   (\<not> list_all base58_class address \<longrightarrow> validateAddress_try decode address = Inr False) \<and>
   (decode address = Inl e \<longrightarrow> \<not> validateAddress decode address)"
  by (cases "decode address")
     (auto simp add: validateAddress_def validateAddress_try_def base58Regex_test_def)

theorem validateAddress_policy_witness:
  "length (lit ''11111111111111111111111111111111'') = 32 \<and>
   list_all base58_class (lit ''11111111111111111111111111111111'') \<and>
   bs58_decode (lit ''11111111111111111111111111111111'') = Inr (replicate 32 0) \<and>
   validateAddress bs58_decode (lit ''11111111111111111111111111111111'')"
proof -
  have len: "length (lit ''11111111111111111111111111111111'') = 32"
    by (simp add: lit_def)
  have cls: "list_all base58_class (lit ''11111111111111111111111111111111'')"
    by (simp add: lit_def base58_class_def in_range_def)
  have dec: "bs58_decode (lit ''11111111111111111111111111111111'') = Inr (replicate 32 0)"
    by (rule system_program_decodes)
  from len cls dec
    validateAddress_policy [of bs58_decode "lit ''11111111111111111111111111111111''"]
  show ?thesis by simp
qed

text \<open>
  C3: the base58 encoding of any 32 bytes is accepted by \<open>validateAddress\<close> with the
  base58 decoder, and a string whose length is outside 32 to 44 or that has a code unit
  outside the base58 class is rejected whatever the decoder.
\<close>

theorem validateAddress_encoded_key:
  "(length bytes = 32 \<longrightarrow> validateAddress bs58_decode (bs58_encode bytes)) \<and>
   (length address < 32 \<or> 44 < length address \<or> (\<exists>c \<in> set address. \<not> base58_class c)
      \<longrightarrow> \<not> validateAddress decode address)"
proof (intro conjI impI)
  assume len: "length bytes = 32"
  then have "32 \<le> length (bs58_encode bytes) \<and> length (bs58_encode bytes) \<le> 44"
    by (rule bs58_encode_length)
  moreover have "list_all base58_class (bs58_encode bytes)"
    by (rule bs58_encode_class)
  moreover have "bs58_decode (bs58_encode bytes) = Inr bytes"
    by (rule bs58_roundtrip)
  ultimately show "validateAddress bs58_decode (bs58_encode bytes)"
    using len
    by (auto simp add: validateAddress_def validateAddress_try_def base58Regex_test_def)
next
  assume "length address < 32 \<or> 44 < length address \<or> (\<exists>c \<in> set address. \<not> base58_class c)"
  then show "\<not> validateAddress decode address"
    by (auto simp add: validateAddress_def validateAddress_try_def base58Regex_test_def
          list_all_iff split: sum.splits)
qed

theorem validateAddress_encoded_key_witness:
  "length (replicate 32 (0::byte)) = 32 \<and>
   validateAddress bs58_decode (bs58_encode (replicate 32 0)) \<and>
   length (lit ''InvalidAddress123'') < 32 \<and>
   \<not> validateAddress bs58_decode (lit ''InvalidAddress123'')"
proof -
  have a: "length (replicate 32 (0::byte)) = 32" by simp
  have b: "length (lit ''InvalidAddress123'') < 32" by (simp add: lit_def)
  from a b
    validateAddress_encoded_key
      [of "replicate 32 0" "lit ''InvalidAddress123''" bs58_decode]
  show ?thesis by blast
qed

section \<open>Claims on key derivation\<close>

text \<open>
  C1: a phrase that \<open>importFromMnemonic\<close> accepts gives the same public key and the same
  secret key each time it is imported: both are what the libraries compute from the phrase
  and the fixed path. When the phrase is the mnemonic of a generated wallet, the imported
  keys are the keys of that wallet.
\<close>

theorem importFromMnemonic_deterministic:
  assumes "importFromMnemonic lib phrase = Inr w"
  shows "(\<forall>w'. importFromMnemonic lib phrase = Inr w' \<longrightarrow>
            publicKey w' = publicKey w \<and> secretKey w' = secretKey w) \<and>
         publicKey w = PublicKey_toBase58 lib (keypair_publicKey (Keypair_fromSeed lib
            (key (derivePath lib derivationPath
               (toString_hex (bip39_mnemonicToSeedSync lib phrase)))))) \<and>
         secretKey w = keypair_secretKey (Keypair_fromSeed lib
            (key (derivePath lib derivationPath
               (toString_hex (bip39_mnemonicToSeedSync lib phrase))))) \<and>
         (phrase = mnemonic (generateWallet lib random) \<longrightarrow>
            publicKey w = publicKey (generateWallet lib random) \<and>
            secretKey w = secretKey (generateWallet lib random))"
  using assms
  by (auto simp add: importFromMnemonic_def generateWallet_def Let_def split: if_splits)

theorem importFromMnemonic_deterministic_witness:
  "importFromMnemonic test_libraries test_phrase =
     Inr \<lparr>publicKey = bs58_encode (replicate 32 0), secretKey = replicate 64 0\<rparr> \<and>
   test_phrase = mnemonic (generateWallet test_libraries []) \<and>
   publicKey (generateWallet test_libraries []) = bs58_encode (replicate 32 0) \<and>
   secretKey (generateWallet test_libraries []) = replicate 64 0"
proof -
  have g: "test_phrase = mnemonic (generateWallet test_libraries [])"
    by (simp add: test_generate)
  from importFromMnemonic_deterministic [OF test_import, of "[]"] g
  have "publicKey \<lparr>publicKey = bs58_encode (replicate 32 0), secretKey = replicate 64 0\<rparr>
          = publicKey (generateWallet test_libraries []) \<and>
        secretKey \<lparr>publicKey = bs58_encode (replicate 32 0), secretKey = replicate 64 0\<rparr>
          = secretKey (generateWallet test_libraries [])"
    by blast
  then have "publicKey (generateWallet test_libraries []) = bs58_encode (replicate 32 0) \<and>
             secretKey (generateWallet test_libraries []) = replicate 64 0"
    by simp
  with test_import g show ?thesis by blast
qed

text \<open>
  C4: a phrase that fails the validation of \<open>bip39\<close> makes \<open>importFromMnemonic\<close> throw
  the error \<open>Invalid mnemonic phrase\<close> and return no wallet; a phrase that passes it,
  such as a valid phrase of 12 or 24 words, gives a wallet with its public key and its
  secret key.
\<close>

theorem importFromMnemonic_validates:
  "(\<not> bip39_validateMnemonic lib phrase \<longrightarrow>
      importFromMnemonic lib phrase = Inl (Error (lit ''Invalid mnemonic phrase''))) \<and>
   (bip39_validateMnemonic lib phrase \<longrightarrow>
      (\<exists>w. importFromMnemonic lib phrase = Inr w \<and>
         publicKey w = PublicKey_toBase58 lib (keypair_publicKey (Keypair_fromSeed lib
            (key (derivePath lib derivationPath
               (toString_hex (bip39_mnemonicToSeedSync lib phrase)))))) \<and>
         secretKey w = keypair_secretKey (Keypair_fromSeed lib
            (key (derivePath lib derivationPath
               (toString_hex (bip39_mnemonicToSeedSync lib phrase)))))))"
  by (simp add: importFromMnemonic_def Let_def)

theorem importFromMnemonic_validates_witness:
  "\<not> bip39_validateMnemonic test_libraries (lit ''not a mnemonic'') \<and>
   importFromMnemonic test_libraries (lit ''not a mnemonic'') =
     Inl (Error (lit ''Invalid mnemonic phrase'')) \<and>
   bip39_validateMnemonic test_libraries test_phrase \<and>
   (\<exists>w. importFromMnemonic test_libraries test_phrase = Inr w)"
  using importFromMnemonic_validates [of test_libraries "lit ''not a mnemonic''"]
    importFromMnemonic_validates [of test_libraries test_phrase]
    test_valid test_invalid
  by blast

section \<open>Claims on the wallet of the client\<close>

text \<open>
  C8: \<open>setWalletAddress\<close> throws an error whose message names the address exactly when
  \<open>validateAddress\<close> rejects the address, and leaves the client as it was; otherwise it
  stores a wallet with the address as public key, an empty secret key and an empty
  mnemonic. So every wallet it stores has an empty secret key and an empty mnemonic.
\<close>

theorem setWalletAddress_validates:
  "(\<not> validateAddress decode address \<longrightarrow>
      setWalletAddress decode this address =
        (Inl (Error (lit ''Invalid Solana address: '' @ address)), this)) \<and>
   (validateAddress decode address \<longrightarrow>
      setWalletAddress decode this address =
        (Inr True, this\<lparr>wallet := Some \<lparr>publicKey = address, secretKey = [], mnemonic = []\<rparr>\<rparr>)) \<and>
   (\<forall>r this'. setWalletAddress decode this address = (Inr r, this') \<longrightarrow>
      (\<exists>w. wallet this' = Some w \<and> publicKey w = address \<and> secretKey w = [] \<and> mnemonic w = []))"
  by (simp add: setWalletAddress_def)

theorem setWalletAddress_validates_witness:
  "\<not> validateAddress bs58_decode (lit ''InvalidAddress123'') \<and>
   setWalletAddress bs58_decode (new_AIONClient (lit ''agent'')) (lit ''InvalidAddress123'') =
     (Inl (Error (lit ''Invalid Solana address: '' @ lit ''InvalidAddress123'')),
      new_AIONClient (lit ''agent'')) \<and>
   validateAddress bs58_decode (lit ''11111111111111111111111111111111'') \<and>
   setWalletAddress bs58_decode (new_AIONClient (lit ''agent''))
       (lit ''11111111111111111111111111111111'') =
     (Inr True, (new_AIONClient (lit ''agent''))
        \<lparr>wallet := Some \<lparr>publicKey = lit ''11111111111111111111111111111111'',
                          secretKey = [], mnemonic = []\<rparr>\<rparr>)"
proof -
  have bad: "\<not> validateAddress bs58_decode (lit ''InvalidAddress123'')"
    by (simp add: validateAddress_def validateAddress_try_def lit_def)
  have good: "validateAddress bs58_decode (lit ''11111111111111111111111111111111'')"
    by (simp add: validateAddress_def validateAddress_try_def base58Regex_test_def
          system_program_decodes)
       (simp add: lit_def base58_class_def in_range_def)
  from bad good
    setWalletAddress_validates [of bs58_decode "lit ''InvalidAddress123''" "new_AIONClient (lit ''agent'')"]
    setWalletAddress_validates [of bs58_decode "lit ''11111111111111111111111111111111''"
      "new_AIONClient (lit ''agent'')"]
  show ?thesis by blast
qed

section \<open>Requests and the claim code\<close>

lemma requests_sent: "requests (sent request p) = requests p @ [request]"
  by (simp add: sent_def)

lemma startClaim_platform: "snd (snd (startClaim this p)) = sent (startClaim_request this) p"
  by (cases "next_reply p")
     (simp_all add: startClaim_def fetch_def split: sum.splits)

lemma startClaim_Inr:
  "startClaim this p = (Inr data, this', p') \<Longrightarrow>
   this' = this\<lparr>claimCode := Some (claim_code data)\<rparr> \<and> p' = sent (startClaim_request this) p"
  by (cases "next_reply p")
     (auto simp add: startClaim_def fetch_def split: sum.splits if_splits)

lemma truthy_iff: "truthy v \<longleftrightarrow> v \<noteq> None \<and> v \<noteq> Some []"
  by (cases v) (simp_all add: truthy_def)

lemma getVerificationMessage_held:
  "truthy (claimCode this) \<Longrightarrow>
   getVerificationMessage this p = (Inr (verification_message (claimCode this)), this, p)"
  by (simp add: getVerificationMessage_def)

lemma getVerificationMessage_not_held:
  "\<not> truthy (claimCode this) \<Longrightarrow>
   getVerificationMessage this p =
     (case startClaim this p of
        (Inl e, this', p') \<Rightarrow> (Inl e, this', p')
      | (Inr data, this', p') \<Rightarrow>
          (Inr (verification_message (Some (claim_code data))), this', p'))"
proof -
  assume held: "\<not> truthy (claimCode this)"
  obtain r this' p' where sc: "startClaim this p = (r, this', p')"
    by (cases "startClaim this p") auto
  show ?thesis
  proof (cases r)
    case (Inl e)
    with held sc show ?thesis by (simp add: getVerificationMessage_def)
  next
    case (Inr data)
    with sc have "this' = this\<lparr>claimCode := Some (claim_code data)\<rparr>"
      by (simp add: startClaim_Inr [THEN conjunct1])
    with held sc Inr show ?thesis by (simp add: getVerificationMessage_def)
  qed
qed

lemma getVerificationMessage_requests:
  "requests (snd (snd (getVerificationMessage this p))) =
     (if truthy (claimCode this) then requests p else requests p @ [startClaim_request this])"
proof (cases "truthy (claimCode this)")
  case True
  then show ?thesis by (simp add: getVerificationMessage_held)
next
  case False
  obtain r this' p' where sc: "startClaim this p = (r, this', p')"
    by (cases "startClaim this p") auto
  with startClaim_platform [of this p] have "p' = sent (startClaim_request this) p" by simp
  with False sc show ?thesis
    by (cases r) (simp_all add: getVerificationMessage_not_held requests_sent)
qed

lemma startClaim_answers:
  "startClaim this (answers (c # cs)) =
     (Inr \<lparr>claim_code = c, message = []\<rparr>, this\<lparr>claimCode := Some c\<rparr>,
      sent (startClaim_request this) (answers (c # cs)))"
  by (simp add: startClaim_def fetch_def next_reply_def answers_def ok_def Response_json_def)

lemma sent_answers:
  "sent request (answers (c # cs)) = (answers cs)\<lparr>requests := [request]\<rparr>"
  by (simp add: sent_def answers_def)

lemma code_not_empty: "lit ''AION-7'' \<noteq> []"
  by (simp add: lit_def)

section \<open>Claims on the verification message\<close>

text \<open>
  C5, as stated, fails when the platform answers \<open>startClaim\<close> with an empty claim
  code: the code is stored, and the next \<open>getVerificationMessage\<close> sends a second
  \<open>startClaim\<close> request and formats the code of the second answer, not the empty one.
\<close>

theorem getVerificationMessage_empty_code_counterexample:
  "startClaim agent (answers [[], lit ''AION-7'']) =
     (Inr \<lparr>claim_code = [], message = []\<rparr>, agent\<lparr>claimCode := Some []\<rparr>,
      sent (startClaim_request agent) (answers [[], lit ''AION-7''])) \<and>
   getVerificationMessage (agent\<lparr>claimCode := Some []\<rparr>)
       (sent (startClaim_request agent) (answers [[], lit ''AION-7''])) =
     (Inr (verification_message (Some (lit ''AION-7''))),
      agent\<lparr>claimCode := Some (lit ''AION-7'')\<rparr>,
      \<lparr>replies = [], requests = [startClaim_request agent, startClaim_request agent]\<rparr>) \<and>
   verification_message (Some (lit ''AION-7'')) \<noteq> verification_message (Some []) \<and>
   requests (sent (startClaim_request agent) (answers [[], lit ''AION-7''])) =
     [startClaim_request agent]"
proof (intro conjI)
  show "startClaim agent (answers [[], lit ''AION-7'']) =
     (Inr \<lparr>claim_code = [], message = []\<rparr>, agent\<lparr>claimCode := Some []\<rparr>,
      sent (startClaim_request agent) (answers [[], lit ''AION-7'']))"
    by (rule startClaim_answers)
  have "startClaim (agent\<lparr>claimCode := Some []\<rparr>) ((answers [lit ''AION-7''])\<lparr>requests := [startClaim_request agent]\<rparr>) =
     (Inr \<lparr>claim_code = lit ''AION-7'', message = []\<rparr>,
      agent\<lparr>claimCode := Some (lit ''AION-7'')\<rparr>,
      \<lparr>replies = [], requests = [startClaim_request agent, startClaim_request agent]\<rparr>)"
    by (simp add: startClaim_def fetch_def next_reply_def answers_def ok_def Response_json_def
          sent_def startClaim_request_def)
  then show "getVerificationMessage (agent\<lparr>claimCode := Some []\<rparr>)
       (sent (startClaim_request agent) (answers [[], lit ''AION-7''])) =
     (Inr (verification_message (Some (lit ''AION-7''))),
      agent\<lparr>claimCode := Some (lit ''AION-7'')\<rparr>,
      \<lparr>replies = [], requests = [startClaim_request agent, startClaim_request agent]\<rparr>)"
    by (simp add: getVerificationMessage_def truthy_def sent_answers)
  show "verification_message (Some (lit ''AION-7'')) \<noteq> verification_message (Some [])"
    by (simp add: verification_message_def ToString_def code_not_empty)
  show "requests (sent (startClaim_request agent) (answers [[], lit ''AION-7''])) =
     [startClaim_request agent]"
    by (simp add: sent_def answers_def)
qed

text \<open>
  C5, amended: after a successful \<open>startClaim\<close> that returned a non-empty claim code,
  \<open>getVerificationMessage\<close> makes no request, changes nothing and returns the template
  with that code. When the client holds no claim code (\<open>null\<close> or the empty string), it
  makes exactly one \<open>startClaim\<close> request; if that call succeeds it returns the template
  with the code just stored, and if it fails it fails with the same error.
\<close>

theorem getVerificationMessage_after_startClaim:
  "(startClaim this p = (Inr data, this', p') \<and> claim_code data \<noteq> [] \<longrightarrow>
      getVerificationMessage this' p' =
        (Inr (lit ''Claiming my $AION tokens!'' @ [10, 10] @
              lit ''Verification: '' @ claim_code data @ [10, 10] @
              lit ''www.aionworld.cloud''), this', p')) \<and>
   (claimCode this = None \<or> claimCode this = Some [] \<longrightarrow>
      requests (snd (snd (getVerificationMessage this p))) = requests p @ [startClaim_request this] \<and>
      (\<forall>data this' p'. startClaim this p = (Inr data, this', p') \<longrightarrow>
         getVerificationMessage this p =
           (Inr (lit ''Claiming my $AION tokens!'' @ [10, 10] @
                 lit ''Verification: '' @ claim_code data @ [10, 10] @
                 lit ''www.aionworld.cloud''), this', p') \<and>
         claimCode this' = Some (claim_code data)) \<and>
      (\<forall>e this' p'. startClaim this p = (Inl e, this', p') \<longrightarrow>
         getVerificationMessage this p = (Inl e, this', p')))"
proof (intro conjI impI)
  assume a: "startClaim this p = (Inr data, this', p') \<and> claim_code data \<noteq> []"
  then have "startClaim this p = (Inr data, this', p')" ..
  then have "this' = this\<lparr>claimCode := Some (claim_code data)\<rparr>"
    by (rule startClaim_Inr [THEN conjunct1])
  with a have "truthy (claimCode this')" and "claimCode this' = Some (claim_code data)"
    by (simp_all add: truthy_def)
  then show "getVerificationMessage this' p' =
        (Inr (lit ''Claiming my $AION tokens!'' @ [10, 10] @
              lit ''Verification: '' @ claim_code data @ [10, 10] @
              lit ''www.aionworld.cloud''), this', p')"
    by (simp add: getVerificationMessage_held verification_message_def ToString_def)
next
  assume "claimCode this = None \<or> claimCode this = Some []"
  then have nt: "\<not> truthy (claimCode this)" by (simp add: truthy_iff)
  then show "requests (snd (snd (getVerificationMessage this p))) = requests p @ [startClaim_request this]"
    by (simp add: getVerificationMessage_requests)
  show "\<forall>data this' p'. startClaim this p = (Inr data, this', p') \<longrightarrow>
         getVerificationMessage this p =
           (Inr (lit ''Claiming my $AION tokens!'' @ [10, 10] @
                 lit ''Verification: '' @ claim_code data @ [10, 10] @
                 lit ''www.aionworld.cloud''), this', p') \<and>
         claimCode this' = Some (claim_code data)"
  proof (intro allI impI)
    fix data this' p'
    assume sc: "startClaim this p = (Inr data, this', p')"
    then have "this' = this\<lparr>claimCode := Some (claim_code data)\<rparr>"
      by (rule startClaim_Inr [THEN conjunct1])
    with nt sc show "getVerificationMessage this p =
           (Inr (lit ''Claiming my $AION tokens!'' @ [10, 10] @
                 lit ''Verification: '' @ claim_code data @ [10, 10] @
                 lit ''www.aionworld.cloud''), this', p') \<and>
         claimCode this' = Some (claim_code data)"
      by (simp add: getVerificationMessage_not_held verification_message_def ToString_def)
  qed
  from nt show "\<forall>e this' p'. startClaim this p = (Inl e, this', p') \<longrightarrow>
         getVerificationMessage this p = (Inl e, this', p')"
    by (simp add: getVerificationMessage_not_held)
qed

theorem getVerificationMessage_after_startClaim_witness:
  "startClaim agent (answers [lit ''AION-7'']) =
     (Inr \<lparr>claim_code = lit ''AION-7'', message = []\<rparr>, agent\<lparr>claimCode := Some (lit ''AION-7'')\<rparr>,
      sent (startClaim_request agent) (answers [lit ''AION-7''])) \<and>
   lit ''AION-7'' \<noteq> [] \<and>
   getVerificationMessage (agent\<lparr>claimCode := Some (lit ''AION-7'')\<rparr>)
       (sent (startClaim_request agent) (answers [lit ''AION-7''])) =
     (Inr (lit ''Claiming my $AION tokens!'' @ [10, 10] @
           lit ''Verification: '' @ lit ''AION-7'' @ [10, 10] @
           lit ''www.aionworld.cloud''),
      agent\<lparr>claimCode := Some (lit ''AION-7'')\<rparr>,
      sent (startClaim_request agent) (answers [lit ''AION-7''])) \<and>
   claimCode agent = None \<and>
   getVerificationMessage agent (answers [lit ''AION-7'']) =
     (Inr (lit ''Claiming my $AION tokens!'' @ [10, 10] @
           lit ''Verification: '' @ lit ''AION-7'' @ [10, 10] @
           lit ''www.aionworld.cloud''),
      agent\<lparr>claimCode := Some (lit ''AION-7'')\<rparr>,
      sent (startClaim_request agent) (answers [lit ''AION-7'']))"
proof -
  have sc: "startClaim agent (answers [lit ''AION-7'']) =
     (Inr \<lparr>claim_code = lit ''AION-7'', message = []\<rparr>, agent\<lparr>claimCode := Some (lit ''AION-7'')\<rparr>,
      sent (startClaim_request agent) (answers [lit ''AION-7'']))"
    by (rule startClaim_answers)
  have none: "claimCode agent = None"
    by (simp add: agent_def new_AIONClient_def)
  have sel: "claim_code \<lparr>claim_code = lit ''AION-7'', message = []\<rparr> = lit ''AION-7''"
    by simp
  from getVerificationMessage_after_startClaim
         [of agent "answers [lit ''AION-7'']" "\<lparr>claim_code = lit ''AION-7'', message = []\<rparr>"
             "agent\<lparr>claimCode := Some (lit ''AION-7'')\<rparr>"
             "sent (startClaim_request agent) (answers [lit ''AION-7''])"]
       sc none code_not_empty sel
  show ?thesis by metis
qed

text \<open>
  C10: \<open>getVerificationMessage\<close> makes a \<open>startClaim\<close> request exactly when the stored
  claim code is \<open>null\<close> or the empty string, and then returns what that call gives;
  with any other code it makes no request and formats the stored code. A successful
  \<open>startClaim\<close> that stored the empty string leaves the client in the first case, so the
  next \<open>getVerificationMessage\<close> sends another request.
\<close>

theorem getVerificationMessage_implicit_startClaim:
  "requests (snd (snd (getVerificationMessage this p))) =
     (if claimCode this = None \<or> claimCode this = Some []
      then requests p @ [startClaim_request this] else requests p) \<and>
   (claimCode this = None \<or> claimCode this = Some [] \<longrightarrow>
      getVerificationMessage this p =
        (case startClaim this p of
           (Inl e, this', p') \<Rightarrow> (Inl e, this', p')
         | (Inr data, this', p') \<Rightarrow>
             (Inr (verification_message (Some (claim_code data))), this', p'))) \<and>
   (claimCode this \<noteq> None \<and> claimCode this \<noteq> Some [] \<longrightarrow>
      getVerificationMessage this p = (Inr (verification_message (claimCode this)), this, p)) \<and>
   (startClaim this p = (Inr data, this', p') \<and> claim_code data = [] \<longrightarrow>
      claimCode this' = Some [] \<and>
      requests (snd (snd (getVerificationMessage this' p'))) =
        requests p' @ [startClaim_request this'])"
proof (intro conjI impI)
  show "requests (snd (snd (getVerificationMessage this p))) =
     (if claimCode this = None \<or> claimCode this = Some []
      then requests p @ [startClaim_request this] else requests p)"
    by (simp add: getVerificationMessage_requests truthy_iff)
next
  assume "claimCode this = None \<or> claimCode this = Some []"
  then have "\<not> truthy (claimCode this)" by (simp add: truthy_iff)
  then show "getVerificationMessage this p =
        (case startClaim this p of
           (Inl e, this', p') \<Rightarrow> (Inl e, this', p')
         | (Inr data, this', p') \<Rightarrow>
             (Inr (verification_message (Some (claim_code data))), this', p'))"
    by (rule getVerificationMessage_not_held)
next
  assume "claimCode this \<noteq> None \<and> claimCode this \<noteq> Some []"
  then have "truthy (claimCode this)" by (simp add: truthy_iff)
  then show "getVerificationMessage this p = (Inr (verification_message (claimCode this)), this, p)"
    by (rule getVerificationMessage_held)
next
  assume a: "startClaim this p = (Inr data, this', p') \<and> claim_code data = []"
  then have "startClaim this p = (Inr data, this', p')" ..
  then have "this' = this\<lparr>claimCode := Some (claim_code data)\<rparr>"
    by (rule startClaim_Inr [THEN conjunct1])
  with a show "claimCode this' = Some []" by simp
next
  assume a: "startClaim this p = (Inr data, this', p') \<and> claim_code data = []"
  then have "startClaim this p = (Inr data, this', p')" ..
  then have "this' = this\<lparr>claimCode := Some (claim_code data)\<rparr>"
    by (rule startClaim_Inr [THEN conjunct1])
  with a have "\<not> truthy (claimCode this')" by (simp add: truthy_def)
  then show "requests (snd (snd (getVerificationMessage this' p'))) =
        requests p' @ [startClaim_request this']"
    by (simp add: getVerificationMessage_requests)
qed

theorem getVerificationMessage_implicit_startClaim_witness:
  "claimCode agent = None \<and>
   requests (snd (snd (getVerificationMessage agent (answers [])))) = [startClaim_request agent] \<and>
   claimCode (agent\<lparr>claimCode := Some (lit ''AION-7'')\<rparr>) \<noteq> None \<and>
   claimCode (agent\<lparr>claimCode := Some (lit ''AION-7'')\<rparr>) \<noteq> Some [] \<and>
   getVerificationMessage (agent\<lparr>claimCode := Some (lit ''AION-7'')\<rparr>) (answers []) =
     (Inr (verification_message (Some (lit ''AION-7''))),
      agent\<lparr>claimCode := Some (lit ''AION-7'')\<rparr>, answers []) \<and>
   startClaim agent (answers [[]]) =
     (Inr \<lparr>claim_code = [], message = []\<rparr>, agent\<lparr>claimCode := Some []\<rparr>,
      sent (startClaim_request agent) (answers [[]])) \<and>
   requests (snd (snd (getVerificationMessage (agent\<lparr>claimCode := Some []\<rparr>)
       (sent (startClaim_request agent) (answers [[]]))))) =
     [startClaim_request agent, startClaim_request (agent\<lparr>claimCode := Some []\<rparr>)]"
proof -
  have none: "claimCode agent = None"
    by (simp add: agent_def new_AIONClient_def)
  have r0: "requests (answers []) = []"
    by (simp add: answers_def)
  have held: "claimCode (agent\<lparr>claimCode := Some (lit ''AION-7'')\<rparr>) = Some (lit ''AION-7'')"
    by simp
  have sc: "startClaim agent (answers [[]]) =
     (Inr \<lparr>claim_code = [], message = []\<rparr>, agent\<lparr>claimCode := Some []\<rparr>,
      sent (startClaim_request agent) (answers [[]]))"
    by (rule startClaim_answers)
  have sel: "claim_code \<lparr>claim_code = [], message = []\<rparr> = []"
    by simp
  have r1: "requests (sent (startClaim_request agent) (answers [[]])) = [startClaim_request agent]"
    by (simp add: sent_def answers_def)
  from getVerificationMessage_implicit_startClaim [of agent "answers []", THEN conjunct1] none r0
  have a: "requests (snd (snd (getVerificationMessage agent (answers [])))) = [startClaim_request agent]"
    by simp
  from getVerificationMessage_implicit_startClaim
         [of "agent\<lparr>claimCode := Some (lit ''AION-7'')\<rparr>" "answers []",
          THEN conjunct2, THEN conjunct2, THEN conjunct1] held code_not_empty
  have b: "getVerificationMessage (agent\<lparr>claimCode := Some (lit ''AION-7'')\<rparr>) (answers []) =
     (Inr (verification_message (Some (lit ''AION-7''))),
      agent\<lparr>claimCode := Some (lit ''AION-7'')\<rparr>, answers [])"
    by simp
  from getVerificationMessage_implicit_startClaim
         [of agent "answers [[]]" "\<lparr>claim_code = [], message = []\<rparr>"
             "agent\<lparr>claimCode := Some []\<rparr>" "sent (startClaim_request agent) (answers [[]])",
          THEN conjunct2, THEN conjunct2, THEN conjunct2]
       sc sel r1
  have c: "requests (snd (snd (getVerificationMessage (agent\<lparr>claimCode := Some []\<rparr>)
       (sent (startClaim_request agent) (answers [[]]))))) =
     [startClaim_request agent, startClaim_request (agent\<lparr>claimCode := Some []\<rparr>)]"
    by simp
  from none a held code_not_empty b sc c show ?thesis by simp
qed

section \<open>Requests of the other operations\<close>

lemma JSON_stringify_strings:
  "JSON_stringify (map (\<lambda>(k, v). (k, String v)) members) = map (\<lambda>(k, v). (k, String v)) members"
  by (induction members) (auto simp add: JSON_stringify_def)

lemma completeClaim_platform:
  "snd (completeClaim this postUrl explicit p) =
     sent (completeClaim_request this postUrl explicit) p"
  by (cases "next_reply p") (simp_all add: completeClaim_def fetch_def)

lemma sent_answering: "sent request (answering code decoded) = \<lparr>replies = [], requests = [request]\<rparr>"
  by (simp add: sent_def answering_def)

lemma next_reply_answering:
  "next_reply (answering code decoded) = Some \<lparr>status = code, json = decoded\<rparr>"
  by (simp add: next_reply_def answering_def)

lemma not_ok_404: "\<not> ok \<lparr>status = 404, json = decoded\<rparr>"
  by (simp add: ok_def)


lemma Number_toString_404: "Number_toString 404 = lit ''404''"
  by code_simp

lemma agent_fields: "username agent = lit ''agent''" "wallet agent = None" "claimCode agent = None"
  by (simp_all add: agent_def new_AIONClient_def)

lemma holder_fields:
  "username holder = lit ''agent''"
  "wallet holder = Some \<lparr>publicKey = lit ''11111111111111111111111111111111'',
                          secretKey = [], mnemonic = []\<rparr>"
  by (simp_all add: holder_def agent_def new_AIONClient_def)

lemma system_program_not_empty: "lit ''11111111111111111111111111111111'' \<noteq> []"
  by (simp add: lit_def)

section \<open>Claims on the network operations\<close>

text \<open>
  C6: in every operation that calls the platform, an answer whose status is not between
  200 and 299 makes the operation throw the error \<open>API error: \<close> followed by the status,
  after exactly one request and with one answer consumed, so nothing is retried. The
  client is returned as it was: a failing \<open>startClaim\<close>, also the one inside
  \<open>getVerificationMessage\<close>, leaves the stored claim code unchanged.
\<close>

theorem non_2xx_is_api_error:
  "(next_reply pa = Some ra \<and> \<not> ok ra \<longrightarrow>
      startClaim this pa =
        (Inl (Error (lit ''API error: '' @ Number_toString (status ra))), this,
         sent (startClaim_request this) pa)) \<and>
   (next_reply pb = Some rb \<and> \<not> ok rb \<longrightarrow>
      completeClaim this postUrl explicit pb =
        (Inl (Error (lit ''API error: '' @ Number_toString (status rb))),
         sent (completeClaim_request this postUrl explicit) pb)) \<and>
   (next_reply pc = Some rc \<and> \<not> ok rc \<longrightarrow>
      claim this postUrl pc =
        (Inl (Error (lit ''API error: '' @ Number_toString (status rc))),
         sent (completeClaim_request this postUrl None) pc)) \<and>
   (next_reply pd = Some rd \<and> \<not> ok rd \<and> \<not> truthy (claimCode this) \<longrightarrow>
      getVerificationMessage this pd =
        (Inl (Error (lit ''API error: '' @ Number_toString (status rd))), this,
         sent (startClaim_request this) pd)) \<and>
   (next_reply pe = Some re \<and> \<not> ok re \<longrightarrow>
      getBugBounties this pe =
        (Inl (Error (lit ''API error: '' @ Number_toString (status re))),
         sent getBugBounties_request pe)) \<and>
   (next_reply pf = Some rf \<and> \<not> ok rf \<longrightarrow>
      submitBugReport this report pf =
        (Inl (Error (lit ''API error: '' @ Number_toString (status rf))),
         sent (submitBugReport_request this report) pf)) \<and>
   (next_reply pg = Some rg \<and> \<not> ok rg \<longrightarrow>
      getChallenges this status_arg pg =
        (Inl (Error (lit ''API error: '' @ Number_toString (status rg))),
         sent (getChallenges_request status_arg) pg)) \<and>
   (next_reply ph = Some rh \<and> \<not> ok rh \<longrightarrow>
      submitChallengeSolution this solution ph =
        (Inl (Error (lit ''API error: '' @ Number_toString (status rh))),
         sent (submitChallengeSolution_request this solution) ph)) \<and>
   (next_reply pi = Some ri \<and> \<not> ok ri \<and> encodeURIComponent (username this) = Inr encoded \<longrightarrow>
      getMyStats encodeURIComponent this pi =
        (Inl (Error (lit ''API error: '' @ Number_toString (status ri))),
         sent (getMyStats_request encoded) pi))"
proof (intro conjI impI)
  assume "next_reply pa = Some ra \<and> \<not> ok ra"
  then show "startClaim this pa =
        (Inl (Error (lit ''API error: '' @ Number_toString (status ra))), this,
         sent (startClaim_request this) pa)"
    by (simp add: startClaim_def fetch_def api_error_def)
next
  assume "next_reply pb = Some rb \<and> \<not> ok rb"
  then show "completeClaim this postUrl explicit pb =
        (Inl (Error (lit ''API error: '' @ Number_toString (status rb))),
         sent (completeClaim_request this postUrl explicit) pb)"
    by (simp add: completeClaim_def fetch_def api_error_def)
next
  assume "next_reply pc = Some rc \<and> \<not> ok rc"
  then show "claim this postUrl pc =
        (Inl (Error (lit ''API error: '' @ Number_toString (status rc))),
         sent (completeClaim_request this postUrl None) pc)"
    by (simp add: claim_def completeClaim_def fetch_def api_error_def)
next
  assume "next_reply pd = Some rd \<and> \<not> ok rd \<and> \<not> truthy (claimCode this)"
  then show "getVerificationMessage this pd =
        (Inl (Error (lit ''API error: '' @ Number_toString (status rd))), this,
         sent (startClaim_request this) pd)"
    by (simp add: getVerificationMessage_def startClaim_def fetch_def api_error_def)
next
  assume "next_reply pe = Some re \<and> \<not> ok re"
  then show "getBugBounties this pe =
        (Inl (Error (lit ''API error: '' @ Number_toString (status re))),
         sent getBugBounties_request pe)"
    by (simp add: getBugBounties_def fetch_def api_error_def)
next
  assume "next_reply pf = Some rf \<and> \<not> ok rf"
  then show "submitBugReport this report pf =
        (Inl (Error (lit ''API error: '' @ Number_toString (status rf))),
         sent (submitBugReport_request this report) pf)"
    by (simp add: submitBugReport_def fetch_def api_error_def)
next
  assume "next_reply pg = Some rg \<and> \<not> ok rg"
  then show "getChallenges this status_arg pg =
        (Inl (Error (lit ''API error: '' @ Number_toString (status rg))),
         sent (getChallenges_request status_arg) pg)"
    by (simp add: getChallenges_def fetch_def api_error_def)
next
  assume "next_reply ph = Some rh \<and> \<not> ok rh"
  then show "submitChallengeSolution this solution ph =
        (Inl (Error (lit ''API error: '' @ Number_toString (status rh))),
         sent (submitChallengeSolution_request this solution) ph)"
    by (simp add: submitChallengeSolution_def fetch_def api_error_def)
next
  assume "next_reply pi = Some ri \<and> \<not> ok ri \<and> encodeURIComponent (username this) = Inr encoded"
  then show "getMyStats encodeURIComponent this pi =
        (Inl (Error (lit ''API error: '' @ Number_toString (status ri))),
         sent (getMyStats_request encoded) pi)"
    by (simp add: getMyStats_def fetch_def api_error_def)
qed

theorem non_2xx_is_api_error_witness:
  "Number_toString 404 = lit ''404'' \<and>
   startClaim agent (answering 404 None) =
     (Inl (Error (lit ''API error: '' @ Number_toString 404)), agent,
      sent (startClaim_request agent) (answering 404 None)) \<and>
   completeClaim agent (lit ''https://moltbook.com/post/1'') None
       (answering 404 (None :: unit option)) =
     (Inl (Error (lit ''API error: '' @ Number_toString 404)),
      sent (completeClaim_request agent (lit ''https://moltbook.com/post/1'') None)
        (answering 404 None)) \<and>
   claim agent (lit ''https://moltbook.com/post/1'') (answering 404 (None :: unit option)) =
     (Inl (Error (lit ''API error: '' @ Number_toString 404)),
      sent (completeClaim_request agent (lit ''https://moltbook.com/post/1'') None)
        (answering 404 None)) \<and>
   getVerificationMessage agent (answering 404 None) =
     (Inl (Error (lit ''API error: '' @ Number_toString 404)), agent,
      sent (startClaim_request agent) (answering 404 None)) \<and>
   getBugBounties agent (answering 404 (None :: unit bug_bounty_data option)) =
     (Inl (Error (lit ''API error: '' @ Number_toString 404)),
      sent getBugBounties_request (answering 404 None)) \<and>
   submitBugReport agent
       \<lparr>category = lit ''security'', title = lit ''t'', description = lit ''d'',
        stepsToReproduce = None, expectedBehavior = None, actualBehavior = None\<rparr>
       (answering 404 (None :: unit option)) =
     (Inl (Error (lit ''API error: '' @ Number_toString 404)),
      sent (submitBugReport_request agent
              \<lparr>category = lit ''security'', title = lit ''t'', description = lit ''d'',
               stepsToReproduce = None, expectedBehavior = None, actualBehavior = None\<rparr>)
        (answering 404 None)) \<and>
   getChallenges agent None (answering 404 (None :: unit challenges_data option)) =
     (Inl (Error (lit ''API error: '' @ Number_toString 404)),
      sent (getChallenges_request None) (answering 404 None)) \<and>
   submitChallengeSolution agent
       \<lparr>challengeSlug = lit ''s'', solutionUrl = lit ''u'', description = lit ''d''\<rparr>
       (answering 404 (None :: unit option)) =
     (Inl (Error (lit ''API error: '' @ Number_toString 404)),
      sent (submitChallengeSolution_request agent
              \<lparr>challengeSlug = lit ''s'', solutionUrl = lit ''u'', description = lit ''d''\<rparr>)
        (answering 404 None)) \<and>
   getMyStats Inr agent (answering 404 (None :: unit option)) =
     (Inl (Error (lit ''API error: '' @ Number_toString 404)),
      sent (getMyStats_request (lit ''agent'')) (answering 404 None))"
proof -
  have nt: "\<not> truthy (claimCode agent)"
    by (simp add: agent_fields truthy_def)
  have enc: "Inr (username agent) = (Inr (lit ''agent'') :: error + js_string)"
    by (simp add: agent_fields)
  have st: "status \<lparr>status = 404, json = decoded\<rparr> = 404" for decoded :: "'d option"
    by simp
  note t = non_2xx_is_api_error
    [where this = agent
       and pa = "answering 404 None" and ra = "\<lparr>status = 404, json = None\<rparr>"
       and pb = "answering 404 (None :: unit option)" and rb = "\<lparr>status = 404, json = None\<rparr>"
       and pc = "answering 404 (None :: unit option)" and rc = "\<lparr>status = 404, json = None\<rparr>"
       and pd = "answering 404 None" and rd = "\<lparr>status = 404, json = None\<rparr>"
       and pe = "answering 404 (None :: unit bug_bounty_data option)"
       and re = "\<lparr>status = 404, json = None\<rparr>"
       and pf = "answering 404 (None :: unit option)" and rf = "\<lparr>status = 404, json = None\<rparr>"
       and pg = "answering 404 (None :: unit challenges_data option)"
       and rg = "\<lparr>status = 404, json = None\<rparr>"
       and ph = "answering 404 (None :: unit option)" and rh = "\<lparr>status = 404, json = None\<rparr>"
       and pi = "answering 404 (None :: unit option)" and ri = "\<lparr>status = 404, json = None\<rparr>"
       and encodeURIComponent = Inr and encoded = "lit ''agent''"
       and postUrl = "lit ''https://moltbook.com/post/1''" and explicit = None
       and status_arg = None
       and report = "\<lparr>category = lit ''security'', title = lit ''t'', description = lit ''d'',
                       stepsToReproduce = None, expectedBehavior = None, actualBehavior = None\<rparr>"
       and solution = "\<lparr>challengeSlug = lit ''s'', solutionUrl = lit ''u'', description = lit ''d''\<rparr>"]
  from t nt enc show ?thesis
    by (simp only: next_reply_answering not_ok_404 st Number_toString_404 simp_thms)
qed

text \<open>
  C7, as stated, fails when the explicit argument is the empty string: a client that
  holds a wallet then sends the public key of that wallet, not the argument.
\<close>

theorem completeClaim_empty_argument_counterexample:
  "wallet holder = Some \<lparr>publicKey = lit ''11111111111111111111111111111111'',
                          secretKey = [], mnemonic = []\<rparr> \<and>
   snd (completeClaim holder (lit ''https://moltbook.com/post/1'') (Some [])
          (answering 200 (Some ()))) =
     \<lparr>replies = [],
      requests =
        [\<lparr>url = lit ''https://www.aionworld.cloud/api/agent'',
          init = Some \<lparr>request_method = lit ''POST'',
                       headers = [(lit ''Content-Type'', lit ''application/json'')],
                       body = [(lit ''action'', String (lit ''complete_claim'')),
                               (lit ''username'', String (lit ''agent'')),
                               (lit ''post_url'', String (lit ''https://moltbook.com/post/1'')),
                               (lit ''wallet_address'',
                                  String (lit ''11111111111111111111111111111111''))]\<rparr>\<rparr>]\<rparr> \<and>
   String (lit ''11111111111111111111111111111111'') \<noteq> String []"
proof (intro conjI)
  show "wallet holder = Some \<lparr>publicKey = lit ''11111111111111111111111111111111'',
                          secretKey = [], mnemonic = []\<rparr>"
    by (rule holder_fields)
  have "completeClaim_payload holder (lit ''https://moltbook.com/post/1'') (Some []) =
        [(lit ''action'', lit ''complete_claim''), (lit ''username'', lit ''agent''),
         (lit ''post_url'', lit ''https://moltbook.com/post/1''),
         (lit ''wallet_address'', lit ''11111111111111111111111111111111'')]"
    by (simp add: completeClaim_payload_def or_else_def truthy_def walletAddress_def
          holder_fields system_program_not_empty)
  then have "completeClaim_request holder (lit ''https://moltbook.com/post/1'') (Some []) =
        \<lparr>url = lit ''https://www.aionworld.cloud/api/agent'',
          init = Some \<lparr>request_method = lit ''POST'',
                       headers = [(lit ''Content-Type'', lit ''application/json'')],
                       body = [(lit ''action'', String (lit ''complete_claim'')),
                               (lit ''username'', String (lit ''agent'')),
                               (lit ''post_url'', String (lit ''https://moltbook.com/post/1'')),
                               (lit ''wallet_address'',
                                  String (lit ''11111111111111111111111111111111''))]\<rparr>\<rparr>"
    by (simp add: completeClaim_request_def JSON_stringify_def json_headers_def API_BASE_def
          lit_def)
  then show "snd (completeClaim holder (lit ''https://moltbook.com/post/1'') (Some [])
          (answering 200 (Some ()))) =
     \<lparr>replies = [],
      requests =
        [\<lparr>url = lit ''https://www.aionworld.cloud/api/agent'',
          init = Some \<lparr>request_method = lit ''POST'',
                       headers = [(lit ''Content-Type'', lit ''application/json'')],
                       body = [(lit ''action'', String (lit ''complete_claim'')),
                               (lit ''username'', String (lit ''agent'')),
                               (lit ''post_url'', String (lit ''https://moltbook.com/post/1'')),
                               (lit ''wallet_address'',
                                  String (lit ''11111111111111111111111111111111''))]\<rparr>\<rparr>]\<rparr>"
    by (simp add: completeClaim_platform sent_answering)
  show "String (lit ''11111111111111111111111111111111'') \<noteq> String []"
    by (simp add: system_program_not_empty)
qed

text \<open>
  C7, amended: the one request of \<open>completeClaim\<close> carries the payload of three members
  followed by \<open>wallet_address\<close>, which is the explicit argument when one is given and is
  not the empty string; otherwise the public key of the held wallet when a wallet is held
  and its public key is not empty; otherwise the member is left out of the body.
\<close>

theorem completeClaim_wallet_address:
  "snd (completeClaim this postUrl explicit p) =
     sent (completeClaim_request this postUrl explicit) p \<and>
   completeClaim_request this postUrl explicit =
     \<lparr>url = API_BASE @ lit ''/agent'',
      init = Some \<lparr>request_method = lit ''POST'', headers = json_headers,
                   body = map (\<lambda>(k, v). (k, String v))
                            (completeClaim_payload this postUrl explicit)\<rparr>\<rparr> \<and>
   (explicit = Some a \<and> a \<noteq> [] \<longrightarrow>
      completeClaim_payload this postUrl explicit =
        [(lit ''action'', lit ''complete_claim''), (lit ''username'', username this),
         (lit ''post_url'', postUrl), (lit ''wallet_address'', a)]) \<and>
   ((explicit = None \<or> explicit = Some []) \<and> wallet this = Some w \<and> publicKey w \<noteq> [] \<longrightarrow>
      completeClaim_payload this postUrl explicit =
        [(lit ''action'', lit ''complete_claim''), (lit ''username'', username this),
         (lit ''post_url'', postUrl), (lit ''wallet_address'', publicKey w)]) \<and>
   ((explicit = None \<or> explicit = Some []) \<and>
    (wallet this = None \<or> (\<exists>w. wallet this = Some w \<and> publicKey w = [])) \<longrightarrow>
      completeClaim_payload this postUrl explicit =
        [(lit ''action'', lit ''complete_claim''), (lit ''username'', username this),
         (lit ''post_url'', postUrl)])"
proof (intro conjI impI)
  show "snd (completeClaim this postUrl explicit p) =
     sent (completeClaim_request this postUrl explicit) p"
    by (rule completeClaim_platform)
  show "completeClaim_request this postUrl explicit =
     \<lparr>url = API_BASE @ lit ''/agent'',
      init = Some \<lparr>request_method = lit ''POST'', headers = json_headers,
                   body = map (\<lambda>(k, v). (k, String v))
                            (completeClaim_payload this postUrl explicit)\<rparr>\<rparr>"
    by (simp only: completeClaim_request_def JSON_stringify_strings)
next
  assume "explicit = Some a \<and> a \<noteq> []"
  then show "completeClaim_payload this postUrl explicit =
        [(lit ''action'', lit ''complete_claim''), (lit ''username'', username this),
         (lit ''post_url'', postUrl), (lit ''wallet_address'', a)]"
    by (simp add: completeClaim_payload_def or_else_def truthy_def)
next
  assume "(explicit = None \<or> explicit = Some []) \<and> wallet this = Some w \<and> publicKey w \<noteq> []"
  then show "completeClaim_payload this postUrl explicit =
        [(lit ''action'', lit ''complete_claim''), (lit ''username'', username this),
         (lit ''post_url'', postUrl), (lit ''wallet_address'', publicKey w)]"
    by (auto simp add: completeClaim_payload_def or_else_def truthy_def walletAddress_def)
next
  assume "(explicit = None \<or> explicit = Some []) \<and>
    (wallet this = None \<or> (\<exists>w. wallet this = Some w \<and> publicKey w = []))"
  then show "completeClaim_payload this postUrl explicit =
        [(lit ''action'', lit ''complete_claim''), (lit ''username'', username this),
         (lit ''post_url'', postUrl)]"
    by (auto simp add: completeClaim_payload_def or_else_def truthy_def walletAddress_def)
qed

theorem completeClaim_wallet_address_witness:
  "completeClaim_payload agent (lit ''https://moltbook.com/post/1'')
       (Some (lit ''11111111111111111111111111111111'')) =
     [(lit ''action'', lit ''complete_claim''), (lit ''username'', username agent),
      (lit ''post_url'', lit ''https://moltbook.com/post/1''),
      (lit ''wallet_address'', lit ''11111111111111111111111111111111'')] \<and>
   completeClaim_payload holder (lit ''https://moltbook.com/post/1'') None =
     [(lit ''action'', lit ''complete_claim''), (lit ''username'', username holder),
      (lit ''post_url'', lit ''https://moltbook.com/post/1''),
      (lit ''wallet_address'', lit ''11111111111111111111111111111111'')] \<and>
   completeClaim_payload agent (lit ''https://moltbook.com/post/1'') None =
     [(lit ''action'', lit ''complete_claim''), (lit ''username'', username agent),
      (lit ''post_url'', lit ''https://moltbook.com/post/1'')]"
proof -
  have key: "publicKey \<lparr>publicKey = lit ''11111111111111111111111111111111'',
                         secretKey = [], mnemonic = []\<rparr> =
             lit ''11111111111111111111111111111111''"
    by simp
  from completeClaim_wallet_address
         [where this = agent and explicit = "Some (lit ''11111111111111111111111111111111'')"
            and a = "lit ''11111111111111111111111111111111''"
            and postUrl = "lit ''https://moltbook.com/post/1''",
          THEN conjunct2, THEN conjunct2, THEN conjunct1]
       system_program_not_empty
  have a: "completeClaim_payload agent (lit ''https://moltbook.com/post/1'')
       (Some (lit ''11111111111111111111111111111111'')) =
     [(lit ''action'', lit ''complete_claim''), (lit ''username'', username agent),
      (lit ''post_url'', lit ''https://moltbook.com/post/1''),
      (lit ''wallet_address'', lit ''11111111111111111111111111111111'')]"
    by simp
  from completeClaim_wallet_address
         [where this = holder and explicit = None
            and w = "\<lparr>publicKey = lit ''11111111111111111111111111111111'',
                       secretKey = [], mnemonic = []\<rparr>"
            and postUrl = "lit ''https://moltbook.com/post/1''",
          THEN conjunct2, THEN conjunct2, THEN conjunct2, THEN conjunct1]
       holder_fields(2) system_program_not_empty key
  have b: "completeClaim_payload holder (lit ''https://moltbook.com/post/1'') None =
     [(lit ''action'', lit ''complete_claim''), (lit ''username'', username holder),
      (lit ''post_url'', lit ''https://moltbook.com/post/1''),
      (lit ''wallet_address'', lit ''11111111111111111111111111111111'')]"
    by simp
  from completeClaim_wallet_address
         [where this = agent and explicit = None
            and postUrl = "lit ''https://moltbook.com/post/1''",
          THEN conjunct2, THEN conjunct2, THEN conjunct2, THEN conjunct2]
       agent_fields(2)
  have c: "completeClaim_payload agent (lit ''https://moltbook.com/post/1'') None =
     [(lit ''action'', lit ''complete_claim''), (lit ''username'', username agent),
      (lit ''post_url'', lit ''https://moltbook.com/post/1'')]"
    by simp
  from a b c show ?thesis by simp
qed



end
